theory Spec2Isabelle
  imports Main
begin

section \<open>JavaScript values\<close>

text \<open>
  A decoded response body is a JSON value; \<open>JUndefined\<close> is added because reading an absent
  property yields \<open>undefined\<close>, which \<open>unwrap\<close> can hand on. An object is the list of its
  own properties in insertion order (a JavaScript object holds each key once); reads go through
  \<open>map_of\<close>. A number is given by its rendering under \<open>Number::toString\<close>, which
  identifies it up to the sign of zero: \<open>JNum ''59''\<close>, \<open>JNum ''0.5''\<close>,
  \<open>JNum ''1e+21''\<close>. What the code does with a number of a body is to render it, to test
  it for truth and to compare it with zero, and the rendering decides all three.
  A \<open>char\<close> stands for one code unit of a JavaScript string.
\<close>

datatype jsval =
    JUndefined
  | JNull
  | JBool bool
  | JNum string
  | JStr string
  | JArr "jsval list"
  | JObj "(string \<times> jsval) list"

text \<open>
  What the code can throw: the runtime's \<open>TypeError\<close>; \<open>new Error(message)\<close> of
  \<open>handleError\<close>; a thrown string (\<^verbatim>\<open>throw "No creds"\<close> in the client); and the
  rejection of a grant by the provider, which the token helpers pass on.
\<close>

datatype js_error = TypeError | Error string | ThrownString string | AuthError string

definition bindE :: "'e + 'a \<Rightarrow> ('a \<Rightarrow> 'e + 'b) \<Rightarrow> 'e + 'b" where
  "bindE m f = (case m of Inl e \<Rightarrow> Inl e | Inr x \<Rightarrow> f x)"

definition digit_char :: "nat \<Rightarrow> char" where
  "digit_char d = ''0123456789'' ! d"

text \<open>The decimal numeral of a natural number.\<close>

fun dec :: "nat \<Rightarrow> string" where
  "dec n = (if n < 10 then [digit_char n] else dec (n div 10) @ [digit_char (n mod 10)])"

declare dec.simps [simp del]

text \<open>
  \<open>ToString\<close>, as a template literal applies it. An array is its elements joined by
  commas, with \<open>null\<close> and \<open>undefined\<close> elements left empty. A plain object is
  \<open>[object Object]\<close>, through the \<open>toString\<close> it inherits; an object that holds a key
  \<open>toString\<close> of its own has no rendering, because a value of a decoded body is never a
  function and \<open>valueOf\<close> gives no primitive either: the conversion raises a
  \<open>TypeError\<close>. The elements of an array are converted from left to right.
\<close>

fun js_to_string :: "jsval \<Rightarrow> js_error + string"
  and js_element :: "jsval \<Rightarrow> js_error + string"
  and js_join :: "jsval list \<Rightarrow> js_error + string" where
  "js_to_string JUndefined = Inr ''undefined''"
| "js_to_string JNull = Inr ''null''"
| "js_to_string (JBool b) = Inr (if b then ''true'' else ''false'')"
| "js_to_string (JNum rendering) = Inr rendering"
| "js_to_string (JStr s) = Inr s"
| "js_to_string (JArr xs) = js_join xs"
| "js_to_string (JObj kvs) =
     (if map_of kvs ''toString'' \<noteq> None then Inl TypeError else Inr ''[object Object]'')"
| "js_element JUndefined = Inr []"
| "js_element JNull = Inr []"
| "js_element v = js_to_string v"
| "js_join [] = Inr []"
| "js_join [x] = js_element x"
| "js_join (x # y # ys) =
     bindE (js_element x) (\<lambda>first. bindE (js_join (y # ys)) (\<lambda>rest. Inr (first @ '','' @ rest)))"

text \<open>
  \<open>ToBoolean\<close>: what \<open>if (description)\<close> tests. A number is falsy when it is zero or
  \<open>NaN\<close>.
\<close>

fun js_truthy :: "jsval \<Rightarrow> bool" where
  "js_truthy JUndefined = False"
| "js_truthy JNull = False"
| "js_truthy (JBool b) = b"
| "js_truthy (JNum rendering) = (rendering \<noteq> ''0'' \<and> rendering \<noteq> ''NaN'')"
| "js_truthy (JStr s) = (s \<noteq> [])"
| "js_truthy (JArr xs) = True"
| "js_truthy (JObj kvs) = True"

fun js_typeof :: "jsval \<Rightarrow> string" where
  "js_typeof JUndefined = ''undefined''"
| "js_typeof JNull = ''object''"
| "js_typeof (JBool b) = ''boolean''"
| "js_typeof (JNum n) = ''number''"
| "js_typeof (JStr s) = ''string''"
| "js_typeof (JArr xs) = ''object''"
| "js_typeof (JObj kvs) = ''object''"

text \<open>
  The value of a character as a digit (\<open>0\<close> to \<open>9\<close>, then the letters in either case),
  the digits of a radix, and the number a string of such digits denotes.
\<close>

definition digit_value :: "char \<Rightarrow> nat option" where
  "digit_value c =
     (let n = (of_char c :: nat)
      in if 48 \<le> n \<and> n \<le> 57 then Some (n - 48)
         else if 97 \<le> n \<and> n \<le> 122 then Some (n - 87)
         else if 65 \<le> n \<and> n \<le> 90 then Some (n - 55)
         else None)"

definition radix_digit :: "nat \<Rightarrow> char \<Rightarrow> nat option" where
  "radix_digit R c =
     (case digit_value c of None \<Rightarrow> None | Some d \<Rightarrow> if d < R then Some d else None)"

definition radix_value :: "nat \<Rightarrow> string \<Rightarrow> nat" where
  "radix_value R z =
     foldl (\<lambda>acc c. acc * R + (case radix_digit R c of None \<Rightarrow> 0 | Some d \<Rightarrow> d)) 0 z"

definition is_digit :: "char \<Rightarrow> bool" where
  "is_digit c = (radix_digit 10 c \<noteq> None)"

definition decimal_value :: "string \<Rightarrow> nat" where
  "decimal_value s = radix_value 10 s"

text \<open>
  A property key is an index of an array or string of length \<open>len\<close> when it is the canonical
  decimal numeral (no leading zero) of a number below \<open>len\<close>.
\<close>

definition array_index :: "string \<Rightarrow> nat \<Rightarrow> nat option" where
  "array_index k len =
     (if k \<noteq> [] \<and> list_all is_digit k \<and> (k = ''0'' \<or> hd k \<noteq> CHR ''0'') \<and> decimal_value k < len
      then Some (decimal_value k) else None)"

text \<open>
  The \<open>in\<close> operator: a \<open>TypeError\<close> when the right operand is not an object. The program
  tests the keys \<open>json\<close> and \<open>error\<close> only, which no prototype defines, so own properties
  (and the indices and \<open>length\<close> of an array) decide.
\<close>

fun js_in :: "string \<Rightarrow> jsval \<Rightarrow> js_error + bool" where
  "js_in k (JObj kvs) = Inr (map_of kvs k \<noteq> None)"
| "js_in k (JArr xs) = Inr (k = ''length'' \<or> array_index k (length xs) \<noteq> None)"
| "js_in k v = Inl TypeError"

text \<open>
  A property read \<open>v.k\<close> (also the reads of a destructuring pattern): a \<open>TypeError\<close> on
  \<open>null\<close> and \<open>undefined\<close>, \<open>undefined\<close> for a property that is absent. The program reads
  the keys \<open>json\<close>, \<open>errors\<close>, \<open>data\<close>, \<open>error\<close>, \<open>error_description\<close>, \<open>length\<close> and
  \<open>0\<close>; of these the prototypes define \<open>length\<close> alone, for arrays and strings.
\<close>

fun js_get :: "jsval \<Rightarrow> string \<Rightarrow> js_error + jsval" where
  "js_get JUndefined k = Inl TypeError"
| "js_get JNull k = Inl TypeError"
| "js_get (JBool b) k = Inr JUndefined"
| "js_get (JNum n) k = Inr JUndefined"
| "js_get (JStr s) k =
     Inr (if k = ''length'' then JNum (dec (length s))
          else case array_index k (length s) of
                 None \<Rightarrow> JUndefined
               | Some i \<Rightarrow> JStr [s ! i])"
| "js_get (JArr xs) k =
     Inr (if k = ''length'' then JNum (dec (length xs))
          else case array_index k (length xs) of
                 None \<Rightarrow> JUndefined
               | Some i \<Rightarrow> xs ! i)"
| "js_get (JObj kvs) k = Inr (case map_of kvs k of None \<Rightarrow> JUndefined | Some v \<Rightarrow> v)"

text \<open>
  The comparison \<open>v > 0\<close>. A number is greater than zero when its rendering is neither
  \<open>0\<close> nor \<open>NaN\<close> and has no minus sign. For a string operand the runtime converts the
  text to a number (\<open>StringToNumber\<close>, which reads fractions and exponents); that
  conversion is no part of the repository and is taken as the parameter \<open>positive\<close>, which
  says whether the number read from a string is greater than zero. An array is compared
  through its string, which may have no rendering. A plain object converts to \<open>NaN\<close>
  unless it holds a key \<open>toString\<close> of its own, and then the conversion raises a
  \<open>TypeError\<close>; \<open>undefined\<close> converts to \<open>NaN\<close>, and \<open>null\<close> to zero.
\<close>

fun js_gt0 :: "(string \<Rightarrow> bool) \<Rightarrow> jsval \<Rightarrow> js_error + bool" where
  "js_gt0 positive JUndefined = Inr False"
| "js_gt0 positive JNull = Inr False"
| "js_gt0 positive (JBool b) = Inr b"
| "js_gt0 positive (JNum rendering) =
     Inr (rendering \<noteq> ''0'' \<and> rendering \<noteq> ''NaN''
          \<and> (case rendering of [] \<Rightarrow> False | c # cs \<Rightarrow> c \<noteq> CHR ''-''))"
| "js_gt0 positive (JStr s) = Inr (positive s)"
| "js_gt0 positive (JArr xs) = bindE (js_to_string (JArr xs)) (\<lambda>s. Inr (positive s))"
| "js_gt0 positive (JObj kvs) =
     (if map_of kvs ''toString'' \<noteq> None then Inl TypeError else Inr False)"

section \<open>The gateway: unwrapping a response\<close>

text \<open>
  \<^verbatim>\<open>handleError(message, description?)\<close> of \<^verbatim>\<open>gateway.ts\<close>: it never returns. The
  message is rendered into the template literal first; the description is rendered and
  appended when it is truthy; a value with no rendering raises the \<open>TypeError\<close> of the
  conversion before the \<open>Error\<close> is made.
\<close>

definition handleError :: "jsval \<Rightarrow> jsval \<Rightarrow> js_error + 'a" where
  "handleError message description =
     bindE (js_to_string message) (\<lambda>m.
       let errorMessage = ''Reddit returned an error: '' @ m
       in if js_truthy description
          then bindE (js_to_string description) (\<lambda>d. Inl (Error (errorMessage @ '': '' @ d)))
          else Inl (Error errorMessage))"

text \<open>
  \<^verbatim>\<open>unwrap(response)\<close> of \<^verbatim>\<open>gateway.ts\<close>, branch by branch: the \<open>typeof\<close> test, the
  \<open>json\<close> wrapper with its \<open>errors\<close> and \<open>data\<close>, the top-level \<open>error\<close>, and the
  response itself otherwise.
\<close>

definition unwrap :: "(string \<Rightarrow> bool) \<Rightarrow> jsval \<Rightarrow> js_error + jsval" where
  "unwrap positive response =
     (if js_typeof response \<noteq> ''object'' then Inr response
      else bindE (js_in ''json'' response) (\<lambda>has_json.
        if has_json then
          bindE (js_get response ''json'') (\<lambda>wrapper.
          bindE (js_get wrapper ''errors'') (\<lambda>errors.
          bindE (js_get wrapper ''data'') (\<lambda>data.
          bindE (js_get errors ''length'') (\<lambda>len.
          bindE (js_gt0 positive len) (\<lambda>non_empty.
            if non_empty
            then bindE (js_get errors ''0'') (\<lambda>first. handleError first JUndefined)
            else Inr data)))))
        else
          bindE (js_in ''error'' response) (\<lambda>has_error.
            if has_error then
              bindE (js_get response ''error'') (\<lambda>err.
              bindE (js_get response ''error_description'') (\<lambda>description.
                handleError err description))
            else Inr response)))"

section \<open>The gateway: building a request\<close>

text \<open>
  \<open>Query\<close> and \<open>Data\<close> are string-keyed objects; the request side needs their contents
  only, so they are maps. The object spread \<^verbatim>\<open>{ ...a, k: v }\<close> is a map update and
  \<^verbatim>\<open>{ k: v, ...a }\<close> is \<open>[k \<mapsto> v] ++ a\<close>: the later entry wins.
\<close>

type_synonym query = "string \<rightharpoonup> jsval"
type_synonym data = "string \<rightharpoonup> jsval"

text \<open>
  What \<open>auth()\<close> resolves to, as \<open>buildOptions\<close> reads it: an object holding
  \<open>bearer\<close>, or one holding \<open>user\<close> and \<open>pass\<close>.
\<close>

datatype gw_auth = BearerAuth string | BasicAuth string string

text \<open>The hook that \<open>buildOptions\<close> installs: \<^verbatim>\<open>r => this.updateRatelimit(r)\<close>.\<close>

datatype hook = UpdateRatelimit

text \<open>
  The options handed to \<open>got\<close>, restricted to the keys this file sets; \<open>None\<close> is a key
  that is absent.
\<close>

record got_options =
  prefixUrl :: "string option"
  headers :: "(string \<rightharpoonup> string) option"
  searchParams :: "query option"
  afterResponse :: "hook list option"
  username :: "string option"
  password :: "string option"
  form :: "data option"
  json :: "data option"

definition no_options :: got_options where
  "no_options =
     \<lparr>prefixUrl = None, headers = None, searchParams = None, afterResponse = None,
      username = None, password = None, form = None, json = None\<rparr>"

definition override :: "'a option \<Rightarrow> 'a option \<Rightarrow> 'a option" where
  "override a b = (case b of None \<Rightarrow> a | Some v \<Rightarrow> Some v)"

text \<open>The spread \<^verbatim>\<open>{ ...baseOptions, ...options }\<close> of \<open>doPost\<close>.\<close>

definition spread_options :: "got_options \<Rightarrow> got_options \<Rightarrow> got_options" where
  "spread_options a b =
     \<lparr>prefixUrl = override (prefixUrl a) (prefixUrl b),
      headers = override (headers a) (headers b),
      searchParams = override (searchParams a) (searchParams b),
      afterResponse = override (afterResponse a) (afterResponse b),
      username = override (username a) (username b),
      password = override (password a) (password b),
      form = override (form a) (form b),
      json = override (json a) (json b)\<rparr>"

text \<open>
  A number as the rate-limit code computes it. \<open>parseInt\<close> yields \<open>NaN\<close> or an integer,
  rounded to a double; the product and the sum are rounded as well. The model follows the
  safe integers (magnitude at most \<open>2 ^ 53\<close>), where nothing is rounded: \<open>Finite i\<close> is
  the safe integer \<open>i\<close>, and \<open>Untracked\<close> is a result that the model does not
  determine, because it left the safe integers. \<open>NaN\<close> absorbs in \<open>*\<close> and \<open>+\<close>.
\<close>

datatype jsnum = NaN | Finite int | Untracked

definition number_of_int :: "int \<Rightarrow> jsnum" where
  "number_of_int i = (if \<bar>i\<bar> \<le> 2 ^ 53 then Finite i else Untracked)"

fun num_times :: "jsnum \<Rightarrow> jsnum \<Rightarrow> jsnum" where
  "num_times NaN b = NaN"
| "num_times a NaN = NaN"
| "num_times Untracked b = Untracked"
| "num_times a Untracked = Untracked"
| "num_times (Finite a) (Finite b) = number_of_int (a * b)"

fun num_plus :: "jsnum \<Rightarrow> jsnum \<Rightarrow> jsnum" where
  "num_plus NaN b = NaN"
| "num_plus a NaN = NaN"
| "num_plus Untracked b = Untracked"
| "num_plus a Untracked = Untracked"
| "num_plus (Finite a) (Finite b) = number_of_int (a + b)"

record rate_limit =
  remaining :: jsnum
  reset :: jsnum

text \<open>The fields of the abstract class \<open>Gateway\<close>; \<open>rateLimit\<close> starts undefined.\<close>

record gateway =
  rateLimit :: "rate_limit option"
  userAgent :: string
  endpoint :: string

text \<open>
  \<^verbatim>\<open>buildOptions(query)\<close>. The abstract \<open>auth()\<close> is a parameter: the error it rejects
  with, or what it resolves to (\<open>None\<close> for no authorisation).
\<close>

definition buildOptions :: "js_error + gw_auth option \<Rightarrow> gateway \<Rightarrow> query \<Rightarrow> js_error + got_options" where
  "buildOptions auth gw query =
     (let options =
        \<lparr>prefixUrl = Some (endpoint gw),
         headers = Some [''user-agent'' \<mapsto> userAgent gw],
         searchParams = Some (query(''raw_json'' \<mapsto> JNum ''1'', ''api_type'' \<mapsto> JStr ''json'')),
         afterResponse = Some [UpdateRatelimit],
         username = None, password = None, form = None, json = None\<rparr>
      in bindE auth (\<lambda>a.
           case a of
             None \<Rightarrow> Inr options
           | Some (BearerAuth bearer) \<Rightarrow>
               Inr (options\<lparr>headers :=
                      Some ([''user-agent'' \<mapsto> userAgent gw](''Authorization'' \<mapsto> ''bearer '' @ bearer))\<rparr>)
           | Some (BasicAuth user pass) \<Rightarrow>
               Inr (options\<lparr>username := Some user, password := Some pass\<rparr>)))"

text \<open>
  The call that \<open>get\<close>, \<open>post\<close> and \<open>postJson\<close> make on \<open>got\<close>: the method, the mapped
  path and the options. The abstract \<open>mapPath\<close> is a parameter. What comes back goes through
  the hook \<open>updateRatelimit\<close> and then through \<open>unwrap\<close>.
\<close>

datatype http_method = GET | POST

record got_call =
  http_method :: http_method
  url :: string
  options :: got_options

definition get_call ::
  "js_error + gw_auth option \<Rightarrow> (string \<Rightarrow> string) \<Rightarrow> gateway \<Rightarrow> string \<Rightarrow> query \<Rightarrow> js_error + got_call" where
  "get_call auth mapPath gw path query =
     bindE (buildOptions auth gw query) (\<lambda>options.
       Inr \<lparr>http_method = GET, url = mapPath path, options = options\<rparr>)"

definition doPost_call ::
  "js_error + gw_auth option \<Rightarrow> (string \<Rightarrow> string) \<Rightarrow> gateway \<Rightarrow> string \<Rightarrow> got_options \<Rightarrow> query
     \<Rightarrow> js_error + got_call" where
  "doPost_call auth mapPath gw path opts query =
     bindE (buildOptions auth gw query) (\<lambda>baseOptions.
       Inr \<lparr>http_method = POST, url = mapPath path, options = spread_options baseOptions opts\<rparr>)"

definition post_call ::
  "js_error + gw_auth option \<Rightarrow> (string \<Rightarrow> string) \<Rightarrow> gateway \<Rightarrow> string \<Rightarrow> data \<Rightarrow> query
     \<Rightarrow> js_error + got_call" where
  "post_call auth mapPath gw path form_data query =
     (let formOptions = no_options\<lparr>form := Some ([''api_type'' \<mapsto> JStr ''json''] ++ form_data)\<rparr>
      in doPost_call auth mapPath gw path formOptions query)"

definition postJson_call ::
  "js_error + gw_auth option \<Rightarrow> (string \<Rightarrow> string) \<Rightarrow> gateway \<Rightarrow> string \<Rightarrow> data \<Rightarrow> query
     \<Rightarrow> js_error + got_call" where
  "postJson_call auth mapPath gw path json_data query =
     (let jsonOptions = no_options\<lparr>json := Some ([''api_type'' \<mapsto> JStr ''json''] ++ json_data)\<rparr>
      in doPost_call auth mapPath gw path jsonOptions query)"

section \<open>The gateway: recording the rate limit\<close>

text \<open>
  White space that \<open>parseInt\<close> skips, among the code units a header value can hold: tab, line
  feed, vertical tab, form feed, carriage return, space and no-break space.
\<close>

definition js_whitespace :: "char \<Rightarrow> bool" where
  "js_whitespace c = ((of_char c :: nat) \<in> set [9, 10, 11, 12, 13, 32, 160])"

text \<open>
  \<^verbatim>\<open>parseInt(string)\<close> with no radix. The argument is converted to a string first
  (\<open>undefined\<close>, for a header that is missing, is the text \<open>undefined\<close>); leading white space
  and one sign are dropped; a prefix \<open>0x\<close> or \<open>0X\<close> selects radix 16; the longest run of digits
  is read, and \<open>NaN\<close> is the result when there is none. The integer read is rounded to
  a double, so it is followed inside the safe integers only. The sign of zero is not tracked.
\<close>

definition parseInt :: "string option \<Rightarrow> jsnum" where
  "parseInt input =
     (let inputString = (case input of None \<Rightarrow> ''undefined'' | Some s \<Rightarrow> s);
          S = dropWhile js_whitespace inputString;
          negative = (S \<noteq> [] \<and> hd S = CHR ''-'');
          S1 = (if S \<noteq> [] \<and> (hd S = CHR ''+'' \<or> hd S = CHR ''-'') then tl S else S);
          hex = (take 2 S1 = ''0x'' \<or> take 2 S1 = ''0X'');
          R = (if hex then 16 else 10);
          S2 = (if hex then drop 2 S1 else S1);
          Z = takeWhile (\<lambda>c. radix_digit R c \<noteq> None) S2
      in if Z = [] then NaN
         else number_of_int ((if negative then - 1 else 1) * int (radix_value R Z)))"

text \<open>
  A header from which no number can be read: it is missing, or its value is empty or begins
  with a character that is neither white space, a sign nor a decimal digit.
\<close>

definition non_numeric :: "string option \<Rightarrow> bool" where
  "non_numeric h =
     (case h of
        None \<Rightarrow> True
      | Some s \<Rightarrow>
          s = [] \<or> \<not> (js_whitespace (hd s) \<or> hd s = CHR ''+'' \<or> hd s = CHR ''-'' \<or> is_digit (hd s)))"

text \<open>
  What may follow the numeral at the head of a header value for the numeral to be all that
  \<open>parseInt\<close> reads: nothing, or a character that is not a digit (and not the \<open>x\<close> that
  would make a hexadecimal prefix of a leading zero), as the point of \<open>599.0\<close>.
\<close>

definition ends_numeral :: "string \<Rightarrow> bool" where
  "ends_numeral tail =
     (case tail of
        [] \<Rightarrow> True
      | c # cs \<Rightarrow> \<not> is_digit c \<and> c \<noteq> CHR ''x'' \<and> c \<noteq> CHR ''X'')"

text \<open>
  A response, as far as this file reads it: the headers (a missing header reads as
  \<open>undefined\<close>) and the decoded body.
\<close>

record got_response =
  response_headers :: "string \<rightharpoonup> string"
  body :: jsval

text \<open>
  \<^verbatim>\<open>updateRatelimit(response)\<close>; \<open>now\<close> is the value of \<^verbatim>\<open>Date.now()\<close>, a whole
  number of milliseconds, when the hook runs. It returns the response and the gateway with its
  new snapshot; nothing in it throws.
\<close>

definition updateRatelimit :: "int \<Rightarrow> got_response \<Rightarrow> gateway \<Rightarrow> got_response \<times> gateway" where
  "updateRatelimit now response gw =
     (let hs = response_headers response;
          remain = parseInt (hs ''x-ratelimit-remaining'');
          reset = num_times (parseInt (hs ''x-ratelimit-reset'')) (Finite 1000)
      in (response,
          gw\<lparr>rateLimit :=
               Some \<lparr>remaining = remain, reset = num_plus (number_of_int now) reset\<rparr>\<rparr>))"

section \<open>The client\<close>

text \<open>
  The app's identity, a user's authorisation and a session token. \<open>TokenAuth\<close> holds an
  option because \<open>fromAuthCode\<close> stores \<^verbatim>\<open>client.token.refresh!\<close>, which is
  \<open>undefined\<close> at run time when the grant issued no refresh value.
\<close>

record credentials =
  clientId :: string
  clientSecret :: string

datatype auth = UsernameAuth string string | TokenAuth "string option"

record token =
  access :: string
  refresh :: "string option"
  expiration :: int

record client_options =
  opt_auth :: "auth option"
  opt_creds :: "credentials option"
  opt_userAgent :: string

text \<open>The fields of \<open>Client\<close> (the controls hold no state of their own).\<close>

record client =
  auth :: "auth option"
  creds :: "credentials option"
  token :: "token option"
  client_userAgent :: string

definition new_client :: "client_options \<Rightarrow> client" where
  "new_client opts =
     \<lparr>auth = opt_auth opts, creds = opt_creds opts, token = None,
      client_userAgent = opt_userAgent opts\<rparr>"

text \<open>
  The token helpers \<open>updateAccessToken\<close> and \<open>tokenFromCode\<close> are imported by the client and
  talk to the provider. They are parameters of the client's methods: a helper receives the
  arguments of the call and the state \<open>'w\<close> of the world outside the client, and gives the
  token or the error it rejects with, and the world after the call.
\<close>

type_synonym 'w token_helper =
  "string \<Rightarrow> token option \<Rightarrow> credentials \<Rightarrow> auth option \<Rightarrow> 'w \<Rightarrow> (js_error + token) \<times> 'w"

type_synonym 'w code_helper =
  "string \<Rightarrow> credentials \<Rightarrow> string \<Rightarrow> string \<Rightarrow> 'w \<Rightarrow> (js_error + token) \<times> 'w"

text \<open>
  A method of the client gives its outcome, the client as the method leaves it (a method
  that throws has still made the assignments before the throw) and the world.
\<close>

definition updateAccessToken ::
  "'w token_helper \<Rightarrow> client \<Rightarrow> 'w \<Rightarrow> (js_error + unit) \<times> client \<times> 'w" where
  "updateAccessToken helper c w =
     (case creds c of
        None \<Rightarrow> (Inl (ThrownString ''No creds''), c, w)
      | Some cr \<Rightarrow>
          (case helper (client_userAgent c) (token c) cr (auth c) w of
             (Inl e, w') \<Rightarrow> (Inl e, c, w')
           | (Inr t, w') \<Rightarrow> (Inr (), c\<lparr>token := Some t\<rparr>, w')))"

record oauth_opts =
  oauth_token :: string
  oauth_userAgent :: string

definition oAuth ::
  "'w token_helper \<Rightarrow> client \<Rightarrow> 'w \<Rightarrow> (js_error + oauth_opts) \<times> client \<times> 'w" where
  "oAuth helper c w =
     (case updateAccessToken helper c w of
        (Inl e, c', w') \<Rightarrow> (Inl e, c', w')
      | (Inr u, c', w') \<Rightarrow>
          (case token c' of
             None \<Rightarrow> (Inl TypeError, c', w')
           | Some t \<Rightarrow>
               (Inr \<lparr>oauth_token = access t, oauth_userAgent = client_userAgent c'\<rparr>, c', w')))"

text \<open>
  The call a request method hands on: to the module \<open>oauth\<close> with the options of
  \<open>oAuth\<close>, or to the module \<open>anon\<close> with the user agent.
\<close>

datatype api_call =
    OauthGet oauth_opts string query
  | AnonGet string string query
  | OauthPost oauth_opts string data query
  | AnonPost string string data query
  | OauthPostJson oauth_opts string data query
  | AnonPostJson string string data query

datatype gateway_variant = Authenticated | Anonymous

fun variant_of :: "api_call \<Rightarrow> gateway_variant" where
  "variant_of (OauthGet opts path q) = Authenticated"
| "variant_of (AnonGet ua path q) = Anonymous"
| "variant_of (OauthPost opts path d q) = Authenticated"
| "variant_of (AnonPost ua path d q) = Anonymous"
| "variant_of (OauthPostJson opts path d q) = Authenticated"
| "variant_of (AnonPostJson ua path d q) = Anonymous"

text \<open>The variant a request method has chosen, or the error it failed with before choosing.\<close>

definition chosen :: "js_error + api_call \<Rightarrow> js_error + gateway_variant" where
  "chosen r = (case r of Inl e \<Rightarrow> Inl e | Inr call \<Rightarrow> Inr (variant_of call))"

definition get ::
  "'w token_helper \<Rightarrow> client \<Rightarrow> string \<Rightarrow> query \<Rightarrow> 'w \<Rightarrow> (js_error + api_call) \<times> client \<times> 'w" where
  "get helper c path query w =
     (case creds c of
        Some cr \<Rightarrow>
          (case oAuth helper c w of
             (Inl e, c', w') \<Rightarrow> (Inl e, c', w')
           | (Inr opts, c', w') \<Rightarrow> (Inr (OauthGet opts path query), c', w'))
      | None \<Rightarrow> (Inr (AnonGet (client_userAgent c) path query), c, w))"

definition post ::
  "'w token_helper \<Rightarrow> client \<Rightarrow> string \<Rightarrow> data \<Rightarrow> query \<Rightarrow> 'w
     \<Rightarrow> (js_error + api_call) \<times> client \<times> 'w" where
  "post helper c path d query w =
     (case creds c of
        Some cr \<Rightarrow>
          (case oAuth helper c w of
             (Inl e, c', w') \<Rightarrow> (Inl e, c', w')
           | (Inr opts, c', w') \<Rightarrow> (Inr (OauthPost opts path d query), c', w'))
      | None \<Rightarrow> (Inr (AnonPost (client_userAgent c) path d query), c, w))"

definition postJson ::
  "'w token_helper \<Rightarrow> client \<Rightarrow> string \<Rightarrow> data \<Rightarrow> query \<Rightarrow> 'w
     \<Rightarrow> (js_error + api_call) \<times> client \<times> 'w" where
  "postJson helper c path d query w =
     (case creds c of
        Some cr \<Rightarrow>
          (case oAuth helper c w of
             (Inl e, c', w') \<Rightarrow> (Inl e, c', w')
           | (Inr opts, c', w') \<Rightarrow> (Inr (OauthPostJson opts path d query), c', w'))
      | None \<Rightarrow> (Inr (AnonPostJson (client_userAgent c) path d query), c, w))"

definition reAuth ::
  "'w token_helper \<Rightarrow> auth \<Rightarrow> client \<Rightarrow> 'w \<Rightarrow> (js_error + unit) \<times> client \<times> 'w" where
  "reAuth helper a c w = updateAccessToken helper (c\<lparr>auth := Some a, token := None\<rparr>) w"

definition getRefreshToken :: "client \<Rightarrow> string option" where
  "getRefreshToken c = (case token c of None \<Rightarrow> None | Some t \<Rightarrow> refresh t)"

definition fromAuthCode ::
  "'w code_helper \<Rightarrow> client_options \<Rightarrow> string \<Rightarrow> string \<Rightarrow> 'w \<Rightarrow> (js_error + client) \<times> 'w" where
  "fromAuthCode tokenFromCode opts code redirectUri w =
     (case opt_creds opts of
        None \<Rightarrow> (Inl (ThrownString ''No creds''), w)
      | Some cr \<Rightarrow>
          (let c = new_client opts
           in case tokenFromCode code cr (client_userAgent c) redirectUri w of
                (Inl e, w') \<Rightarrow> (Inl e, w')
              | (Inr t, w') \<Rightarrow>
                  (Inr (c\<lparr>token := Some t, auth := Some (TokenAuth (refresh t))\<rparr>), w')))"

section \<open>The token manager\<close>

text \<open>
  Modelled from the spec: the grants of the token manager, whose code
  (\<^verbatim>\<open>helper/accessToken\<close>) is not in the sources. A grant exchange submits a user name and
  password, a stored refresh value, nothing but the app's identity, or an authorisation code
  with its redirect URI. The provider is a parameter: given the app's credentials, the user
  agent, the grant and the time of the request it rejects the grant with a message or issues
  a token. The world outside the client is the clock and the exchanges made so far.
\<close>

datatype grant =
    PasswordGrant string string
  | RefreshTokenGrant "string option"
  | ClientCredentialsGrant
  | AuthorizationCodeGrant string string

type_synonym provider = "credentials \<Rightarrow> string \<Rightarrow> grant \<Rightarrow> int \<Rightarrow> string + token"

record world =
  clock :: int
  exchanges :: "grant list"

text \<open>
  Modelled from the spec: the grant selected by case on the AuthDescriptor (section 4.1):
  password grant for a user name and password, refresh-token grant for a refresh-token
  descriptor, client-credentials grant for none.
\<close>

fun grant_for :: "auth option \<Rightarrow> grant" where
  "grant_for (Some (UsernameAuth user pass)) = PasswordGrant user pass"
| "grant_for (Some (TokenAuth r)) = RefreshTokenGrant r"
| "grant_for None = ClientCredentialsGrant"

text \<open>
  Modelled from the spec: one grant exchange of the token manager (section 4.1). It fails with
  \<open>AuthError\<close> when the credentials are absent, before anything is sent; otherwise the grant
  of the descriptor goes to the provider, the exchange is recorded, and the provider's token
  or its rejection, as an \<open>AuthError\<close>, is the result.
\<close>

definition exchange_grant ::
  "provider \<Rightarrow> string \<Rightarrow> credentials option \<Rightarrow> auth option \<Rightarrow> world
     \<Rightarrow> (js_error + token) \<times> world" where
  "exchange_grant provider ua credentials authDescriptor w =
     (case credentials of
        None \<Rightarrow> (Inl (AuthError ''credentials are absent''), w)
      | Some cr \<Rightarrow>
          (let g = grant_for authDescriptor
           in (case provider cr ua g (clock w) of
                 Inl m \<Rightarrow> Inl (AuthError m)
               | Inr t \<Rightarrow> Inr t,
               w\<lparr>exchanges := exchanges w @ [g]\<rparr>)))"

text \<open>
  Modelled from the spec: \<open>obtainOrRefresh(userAgent, currentToken, credentials,
  authDescriptor)\<close> of section 4.1, the helper that the client imports as
  \<open>updateAccessToken\<close> and that is not in the sources. A current token that is present and not
  past its expiry is returned unchanged, with no exchange; otherwise one exchange is made.
\<close>

definition obtainOrRefresh ::
  "provider \<Rightarrow> string \<Rightarrow> token option \<Rightarrow> credentials option \<Rightarrow> auth option \<Rightarrow> world
     \<Rightarrow> (js_error + token) \<times> world" where
  "obtainOrRefresh provider ua currentToken credentials authDescriptor w =
     (case currentToken of
        None \<Rightarrow> exchange_grant provider ua credentials authDescriptor w
      | Some t \<Rightarrow>
          if clock w \<le> expiration t then (Inr t, w)
          else exchange_grant provider ua credentials authDescriptor w)"

text \<open>
  Modelled from the spec: the token manager in the place of the client's helper parameter
  (the client passes credentials it has checked to be present).
\<close>

definition token_manager :: "provider \<Rightarrow> world token_helper" where
  "token_manager provider ua currentToken cr authDescriptor w =
     obtainOrRefresh provider ua currentToken (Some cr) authDescriptor w"

section \<open>Properties of numerals\<close>

lemma bindE_simps [simp]:
  "bindE (Inl e) f = Inl e"
  "bindE (Inr x) f = f x"
  by (simp_all add: bindE_def)

lemma lt10:
  "(d::nat) < 10 \<Longrightarrow>
     d = 0 \<or> d = 1 \<or> d = 2 \<or> d = 3 \<or> d = 4 \<or> d = 5 \<or> d = 6 \<or> d = 7 \<or> d = 8 \<or> d = 9"
  by arith

lemma radix_digit_digit_char: "d < 10 \<Longrightarrow> radix_digit 10 (digit_char d) = Some d"
  by (drule lt10) (elim disjE; simp add: digit_char_def radix_digit_def digit_value_def)

lemma radix_value_snoc:
  "radix_value R (z @ [c]) = radix_value R z * R + (case radix_digit R c of None \<Rightarrow> 0 | Some d \<Rightarrow> d)"
  by (simp add: radix_value_def)

lemma dec_digits: "\<forall>c \<in> set (dec n). radix_digit 10 c \<noteq> None"
proof (induction n rule: dec.induct)
  case (1 n)
  show ?case
  proof (cases "n < 10")
    case True
    then show ?thesis by (subst dec.simps) (simp add: radix_digit_digit_char)
  next
    case False
    with 1 show ?thesis by (subst dec.simps) (simp add: radix_digit_digit_char)
  qed
qed

lemma dec_value: "radix_value 10 (dec n) = n"
proof (induction n rule: dec.induct)
  case (1 n)
  show ?case
  proof (cases "n < 10")
    case True
    then show ?thesis
      by (subst dec.simps) (simp add: radix_value_def radix_digit_digit_char)
  next
    case False
    with 1 show ?thesis
      by (subst dec.simps) (simp add: radix_value_snoc radix_digit_digit_char)
  qed
qed

lemma dec_nonempty: "dec n \<noteq> []"
  by (subst dec.simps) simp

lemma dec_0: "dec 0 = ''0''"
  by (simp add: dec.simps [of 0] digit_char_def)

lemma radix_value_0: "radix_value 10 ''0'' = 0"
  by (simp add: radix_value_def radix_digit_def digit_value_def)

lemma dec_is_0: "(dec n = ''0'') = (n = 0)"
proof
  assume "dec n = ''0''"
  then have "radix_value 10 (dec n) = radix_value 10 ''0''" by (rule arg_cong)
  then show "n = 0"
    by (simp only: dec_value radix_value_0)
next
  assume "n = 0"
  then show "dec n = ''0''" by (simp add: dec_0)
qed

lemma radix_digit_N: "radix_digit 10 (CHR ''N'') = None"
  by (simp add: radix_digit_def digit_value_def)

lemma radix_digit_minus: "radix_digit 10 (CHR ''-'') = None"
  by (simp add: radix_digit_def digit_value_def)

lemma dec_not_NaN: "dec n \<noteq> ''NaN''"
proof
  assume "dec n = ''NaN''"
  then have "CHR ''N'' \<in> set (dec n)" by (simp only: list.set insert_iff simp_thms)
  with dec_digits have "radix_digit 10 (CHR ''N'') \<noteq> None" by (rule bspec)
  with radix_digit_N show False by (rule notE [rotated])
qed

lemma dec_no_minus: "(case dec n of [] \<Rightarrow> False | c # cs \<Rightarrow> c \<noteq> CHR ''-'')"
proof (cases "dec n")
  case Nil
  with dec_nonempty [of n] show ?thesis by simp
next
  case (Cons c cs)
  then have "c \<in> set (dec n)" by simp
  with dec_digits have "radix_digit 10 c \<noteq> None" by (rule bspec)
  with radix_digit_minus have "c \<noteq> CHR ''-''" by auto
  with Cons show ?thesis by simp
qed

text \<open>The length of an array or string is greater than zero when there is an element.\<close>

lemma js_gt0_length: "js_gt0 positive (JNum (dec n)) = Inr (0 < n)"
  using dec_no_minus [of n] by (simp add: dec_is_0 dec_not_NaN)

lemma js_to_string_TypeError:
  "js_to_string v = Inl e \<Longrightarrow> e = TypeError"
  "js_element v = Inl e \<Longrightarrow> e = TypeError"
  "js_join vs = Inl e \<Longrightarrow> e = TypeError"
  by (induction v and v and vs arbitrary: e and e and e rule: js_to_string_js_element_js_join.induct)
    (auto simp: bindE_def split: if_splits sum.splits)

section \<open>Properties of unwrap\<close>

lemma array_index_json [simp]: "array_index ''json'' n = None"
  by (simp add: array_index_def is_digit_def radix_digit_def digit_value_def)

lemma array_index_error [simp]: "array_index ''error'' n = None"
  by (simp add: array_index_def is_digit_def radix_digit_def digit_value_def)

lemma array_index_zero [simp]: "array_index ''0'' n = (if 0 < n then Some 0 else None)"
  by (simp add: array_index_def is_digit_def decimal_value_def radix_value_def
      radix_digit_def digit_value_def)

text \<open>
  C10. On the body \<open>null\<close>, \<open>unwrap\<close> neither returns the body nor fails with the error of
  \<open>handleError\<close>: \<open>null\<close> passes the \<open>typeof\<close> test and the membership test on it raises
  a \<open>TypeError\<close>.
\<close>

theorem unwrap_null_TypeError:
  "js_typeof JNull = ''object''
   \<and> unwrap positive JNull = Inl TypeError
   \<and> unwrap positive JNull \<noteq> Inr JNull
   \<and> (\<forall>m. unwrap positive JNull \<noteq> Inl (Error m))"
  by (simp add: unwrap_def)

text \<open>
  Bodies that pass through: a body whose \<open>typeof\<close> is not \<open>object\<close> (a string, a number,
  a boolean), an object that holds neither the key \<open>json\<close> nor the key \<open>error\<close>, and an
  array.
\<close>

lemma unwrap_passthrough:
  "(js_typeof b \<noteq> ''object'' \<longrightarrow> unwrap positive b = Inr b)
   \<and> (map_of kvs ''json'' = None \<and> map_of kvs ''error'' = None
        \<longrightarrow> unwrap positive (JObj kvs) = Inr (JObj kvs))
   \<and> unwrap positive (JArr xs) = Inr (JArr xs)"
  by (simp add: unwrap_def)

lemma unwrap_passthrough_examples:
  "unwrap (\<lambda>s. False) (JStr ''bar'') = Inr (JStr ''bar'')
   \<and> unwrap (\<lambda>s. False) (JNum ''7'') = Inr (JNum ''7'')
   \<and> unwrap (\<lambda>s. False) (JObj [(''foo'', JStr ''bar'')]) = Inr (JObj [(''foo'', JStr ''bar'')])"
  using unwrap_passthrough [where b = "JStr ''bar''" and kvs = "[(''foo'', JStr ''bar'')]"
      and positive = "\<lambda>s. False"]
    unwrap_passthrough [where b = "JNum ''7''" and kvs = "[]" and positive = "\<lambda>s. False"]
  by simp

text \<open>
  C7. Every body that is not a structured value, and every structured body holding neither
  the wrapper key nor a top-level error field, is to be returned unchanged. The bodies of
  \<open>unwrap_passthrough\<close> are; the body \<open>null\<close> holds neither key and is not returned: the
  test \<^verbatim>\<open>typeof response !== "object"\<close> lets it through to the membership test.
\<close>

theorem unwrap_null_not_returned:
  "unwrap (\<lambda>s. False) JNull \<noteq> Inr JNull
   \<and> unwrap (\<lambda>s. False) (JObj []) = Inr (JObj [])"
  by (simp add: unwrap_def)

text \<open>
  C1, as the code has it. A body that holds the wrapper key \<open>json\<close>, whose value holds an
  array under \<open>errors\<close>: when the array is empty, \<open>unwrap\<close> returns what the \<open>data\<close>
  slot holds (\<open>undefined\<close> for a slot that is absent). When it is not empty, \<open>unwrap\<close>
  fails: with the error of \<open>handleError\<close>, whose message is \<open>Reddit returned an error: \<close>
  and the rendering of the first entry, when that entry has a rendering, and with the
  \<open>TypeError\<close> of the conversion when it has none.
\<close>

theorem unwrap_wrapper:
  assumes "map_of kvs ''json'' = Some (JObj w)"
    and "map_of w ''errors'' = Some (JArr es)"
  shows "unwrap positive (JObj kvs) =
     (if es = []
      then Inr (case map_of w ''data'' of None \<Rightarrow> JUndefined | Some d \<Rightarrow> d)
      else case js_to_string (hd es) of
             Inr m \<Rightarrow> Inl (Error (''Reddit returned an error: '' @ m))
           | Inl e \<Rightarrow> Inl TypeError)"
proof (cases es)
  case Nil
  with assms show ?thesis
    by (simp add: unwrap_def js_gt0_length del: js_gt0.simps(4))
next
  case (Cons x xs)
  show ?thesis
  proof (cases "js_to_string x")
    case (Inl e)
    with js_to_string_TypeError(1) have "js_to_string x = Inl TypeError" by blast
    with assms Cons show ?thesis
      by (simp add: unwrap_def js_gt0_length handleError_def del: js_gt0.simps(4))
  next
    case (Inr m)
    with assms Cons show ?thesis
      by (simp add: unwrap_def js_gt0_length handleError_def del: js_gt0.simps(4))
  qed
qed

theorem unwrap_wrapper_witness:
  "unwrap (\<lambda>s. False)
     (JObj [(''json'', JObj [(''errors'', JArr []), (''data'', JObj [(''ok'', JBool True)])])])
     = Inr (JObj [(''ok'', JBool True)])
   \<and> unwrap (\<lambda>s. False)
     (JObj [(''json'', JObj [(''errors'', JArr [JStr ''bad thing'']), (''data'', JNull)])])
     = Inl (Error ''Reddit returned an error: bad thing'')
   \<and> unwrap (\<lambda>s. False)
     (JObj [(''json'', JObj [(''errors'', JArr [JArr [JStr ''BAD_SR_NAME'', JStr ''bad name'', JNull]])])])
     = Inl (Error ''Reddit returned an error: BAD_SR_NAME,bad name,'')
   \<and> unwrap (\<lambda>s. False)
     (JObj [(''json'', JObj [(''errors'', JArr [JNum ''1e+21'', JStr ''later'']), (''data'', JNull)])])
     = Inl (Error ''Reddit returned an error: 1e+21'')"
  using unwrap_wrapper [where kvs = "[(''json'', JObj [(''errors'', JArr []), (''data'', JObj [(''ok'', JBool True)])])]"
      and w = "[(''errors'', JArr []), (''data'', JObj [(''ok'', JBool True)])]" and es = "[]"
      and positive = "\<lambda>s. False"]
    unwrap_wrapper [where kvs = "[(''json'', JObj [(''errors'', JArr [JStr ''bad thing'']), (''data'', JNull)])]"
      and w = "[(''errors'', JArr [JStr ''bad thing'']), (''data'', JNull)]" and es = "[JStr ''bad thing'']"
      and positive = "\<lambda>s. False"]
    unwrap_wrapper [where kvs = "[(''json'', JObj [(''errors'', JArr [JArr [JStr ''BAD_SR_NAME'', JStr ''bad name'', JNull]])])]"
      and w = "[(''errors'', JArr [JArr [JStr ''BAD_SR_NAME'', JStr ''bad name'', JNull]])]"
      and es = "[JArr [JStr ''BAD_SR_NAME'', JStr ''bad name'', JNull]]"
      and positive = "\<lambda>s. False"]
    unwrap_wrapper [where kvs = "[(''json'', JObj [(''errors'', JArr [JNum ''1e+21'', JStr ''later'']), (''data'', JNull)])]"
      and w = "[(''errors'', JArr [JNum ''1e+21'', JStr ''later'']), (''data'', JNull)]"
      and es = "[JNum ''1e+21'', JStr ''later'']"
      and positive = "\<lambda>s. False"]
  by simp

text \<open>
  C1 as stated fails for a first entry with no rendering, such as the object
  \<^verbatim>\<open>{"toString": 1}\<close>: the failure is the \<open>TypeError\<close> of the template literal, not an
  error built from the entry.
\<close>

theorem unwrap_wrapper_unrendered_counterexample:
  "unwrap (\<lambda>s. False)
     (JObj [(''json'', JObj [(''errors'', JArr [JObj [(''toString'', JNum ''1'')]]), (''data'', JNull)])])
     = Inl TypeError
   \<and> (\<forall>m. unwrap (\<lambda>s. False)
     (JObj [(''json'', JObj [(''errors'', JArr [JObj [(''toString'', JNum ''1'')]]), (''data'', JNull)])])
     \<noteq> Inl (Error m))"
  by (simp add: unwrap_def js_gt0_length handleError_def del: js_gt0.simps(4))

text \<open>
  C2, as the code has it. A body that is an object with a top-level \<open>error\<close> and no key
  \<open>json\<close> fails with the message \<open>Reddit returned an error: <error>\<close>, followed by
  \<open>: <description>\<close> when \<open>error_description\<close> is present and truthy; \<open><error>\<close> and
  \<open><description>\<close> are the renderings of the two fields. A description that is absent or
  falsy (the empty string, \<open>null\<close>, zero, \<open>false\<close>) adds nothing. A field to be rendered
  that has no rendering makes the failure the \<open>TypeError\<close> of the conversion.
\<close>

theorem unwrap_error_field:
  assumes "map_of kvs ''json'' = None"
    and "map_of kvs ''error'' = Some e"
  shows "unwrap positive (JObj kvs) =
     (case js_to_string e of
        Inl x \<Rightarrow> Inl TypeError
      | Inr m \<Rightarrow>
          (case map_of kvs ''error_description'' of
             None \<Rightarrow> Inl (Error (''Reddit returned an error: '' @ m))
           | Some d \<Rightarrow>
               if js_truthy d
               then (case js_to_string d of
                       Inl x \<Rightarrow> Inl TypeError
                     | Inr t \<Rightarrow> Inl (Error (''Reddit returned an error: '' @ m @ '': '' @ t)))
               else Inl (Error (''Reddit returned an error: '' @ m))))"
proof (cases "js_to_string e")
  case (Inl x)
  with js_to_string_TypeError(1) have "js_to_string e = Inl TypeError" by blast
  with assms Inl show ?thesis
    by (simp add: unwrap_def handleError_def)
next
  case (Inr m)
  show ?thesis
  proof (cases "map_of kvs ''error_description''")
    case None
    with assms Inr show ?thesis
      by (simp add: unwrap_def handleError_def)
  next
    case (Some d)
    show ?thesis
    proof (cases "js_to_string d")
      case (Inl x)
      with js_to_string_TypeError(1) have "js_to_string d = Inl TypeError" by blast
      with assms Inr Some Inl show ?thesis
        by (simp add: unwrap_def handleError_def)
    next
      case r: (Inr t)
      with assms Inr Some show ?thesis
        by (simp add: unwrap_def handleError_def)
    qed
  qed
qed

theorem unwrap_error_field_witness:
  "unwrap (\<lambda>s. False) (JObj [(''error'', JStr ''404''), (''error_description'', JStr ''not found'')])
     = Inl (Error ''Reddit returned an error: 404: not found'')
   \<and> unwrap (\<lambda>s. False) (JObj [(''error'', JStr ''404'')])
     = Inl (Error ''Reddit returned an error: 404'')
   \<and> unwrap (\<lambda>s. False) (JObj [(''error'', JNum ''1e+21''), (''error_description'', JNum ''0'')])
     = Inl (Error ''Reddit returned an error: 1e+21'')
   \<and> unwrap (\<lambda>s. False) (JObj [(''error'', JObj [(''toString'', JNum ''1'')])])
     = Inl TypeError"
  using unwrap_error_field [where kvs = "[(''error'', JStr ''404''), (''error_description'', JStr ''not found'')]"
      and e = "JStr ''404''" and positive = "\<lambda>s. False"]
    unwrap_error_field [where kvs = "[(''error'', JStr ''404'')]" and e = "JStr ''404''"
      and positive = "\<lambda>s. False"]
    unwrap_error_field [where kvs = "[(''error'', JNum ''1e+21''), (''error_description'', JNum ''0'')]"
      and e = "JNum ''1e+21''" and positive = "\<lambda>s. False"]
    unwrap_error_field [where kvs = "[(''error'', JObj [(''toString'', JNum ''1'')])]"
      and e = "JObj [(''toString'', JNum ''1'')]" and positive = "\<lambda>s. False"]
  by simp

text \<open>
  C2 as stated fails where the description is present and empty: the field is in the body, and
  the message ends after the error, not with \<open>: \<close> and the description.
\<close>

theorem unwrap_empty_description_counterexample:
  "map_of [(''error'', JStr ''404''), (''error_description'', JStr [])] ''error_description''
     = Some (JStr [])
   \<and> unwrap (\<lambda>s. False) (JObj [(''error'', JStr ''404''), (''error_description'', JStr [])])
       = Inl (Error ''Reddit returned an error: 404'')
   \<and> unwrap (\<lambda>s. False) (JObj [(''error'', JStr ''404''), (''error_description'', JStr [])])
       \<noteq> Inl (Error (''Reddit returned an error: '' @ ''404'' @ '': '' @ []))"
  by (simp add: unwrap_def handleError_def)

section \<open>Properties of the requests\<close>

lemma buildOptions_fails:
  "buildOptions a gw q = Inl e \<Longrightarrow> a = Inl e"
  by (cases a) (auto simp: buildOptions_def Let_def split: option.splits gw_auth.splits)

lemma buildOptions_searchParams:
  "buildOptions a gw q = Inr opts \<Longrightarrow>
     searchParams opts = Some (q(''raw_json'' \<mapsto> JNum ''1'', ''api_type'' \<mapsto> JStr ''json''))
     \<and> form opts = None \<and> json opts = None"
  by (cases a) (auto simp: buildOptions_def Let_def split: option.splits gw_auth.splits)

text \<open>
  C6, as the code has it. A call is built unless \<open>auth()\<close> fails. Whatever query the caller
  gives, the query of every call built holds \<open>raw_json\<close> = 1 and \<open>api_type\<close> = \<open>json\<close>,
  and every other key of the caller's query as the caller gave it. The payload of \<open>post\<close>
  and of \<open>postJson\<close> holds the key \<open>api_type\<close>: with the value \<open>json\<close> when the
  caller's payload has no such key, with the caller's own value when it has; every other key
  of the payload is sent as the caller gave it.
\<close>

theorem request_markers:
  "(case get_call a mp gw path q of
      Inl e \<Rightarrow> a = Inl e
    | Inr r \<Rightarrow>
        (\<exists>sp. searchParams (options r) = Some sp
           \<and> sp ''raw_json'' = Some (JNum ''1'') \<and> sp ''api_type'' = Some (JStr ''json'')
           \<and> (\<forall>k. k \<noteq> ''raw_json'' \<and> k \<noteq> ''api_type'' \<longrightarrow> sp k = q k)))
   \<and> (case post_call a mp gw path d q of
      Inl e \<Rightarrow> a = Inl e
    | Inr r \<Rightarrow>
        (\<exists>sp. searchParams (options r) = Some sp
           \<and> sp ''raw_json'' = Some (JNum ''1'') \<and> sp ''api_type'' = Some (JStr ''json'')
           \<and> (\<forall>k. k \<noteq> ''raw_json'' \<and> k \<noteq> ''api_type'' \<longrightarrow> sp k = q k))
        \<and> (\<exists>b. form (options r) = Some b
           \<and> b ''api_type'' = Some (case d ''api_type'' of None \<Rightarrow> JStr ''json'' | Some v \<Rightarrow> v)
           \<and> (\<forall>k. k \<noteq> ''api_type'' \<longrightarrow> b k = d k)))
   \<and> (case postJson_call a mp gw path d q of
      Inl e \<Rightarrow> a = Inl e
    | Inr r \<Rightarrow>
        (\<exists>sp. searchParams (options r) = Some sp
           \<and> sp ''raw_json'' = Some (JNum ''1'') \<and> sp ''api_type'' = Some (JStr ''json'')
           \<and> (\<forall>k. k \<noteq> ''raw_json'' \<and> k \<noteq> ''api_type'' \<longrightarrow> sp k = q k))
        \<and> (\<exists>b. json (options r) = Some b
           \<and> b ''api_type'' = Some (case d ''api_type'' of None \<Rightarrow> JStr ''json'' | Some v \<Rightarrow> v)
           \<and> (\<forall>k. k \<noteq> ''api_type'' \<longrightarrow> b k = d k)))"
proof (cases "buildOptions a gw q")
  case (Inl e)
  then show ?thesis
    by (simp add: get_call_def post_call_def postJson_call_def doPost_call_def buildOptions_fails)
next
  case (Inr opts)
  from buildOptions_searchParams [OF Inr] show ?thesis
    by (simp add: Inr get_call_def post_call_def postJson_call_def doPost_call_def
        spread_options_def override_def no_options_def map_add_def split: option.split)
qed

theorem request_markers_witness:
  "(case post_call (Inr (Some (BearerAuth ''tok''))) (\<lambda>p. p)
          \<lparr>rateLimit = None, userAgent = ''ua'', endpoint = ''https://oauth.reddit.com''\<rparr>
          ''api/vote'' [''id'' \<mapsto> JStr ''t3_abc'', ''dir'' \<mapsto> JNum ''1''] [''limit'' \<mapsto> JNum ''5''] of
      Inl e \<Rightarrow> False
    | Inr r \<Rightarrow>
        (\<exists>sp. searchParams (options r) = Some sp
           \<and> sp ''raw_json'' = Some (JNum ''1'') \<and> sp ''api_type'' = Some (JStr ''json'')
           \<and> sp ''limit'' = Some (JNum ''5''))
        \<and> (\<exists>b. form (options r) = Some b
           \<and> b ''api_type'' = Some (JStr ''json'') \<and> b ''id'' = Some (JStr ''t3_abc'')))"
proof -
  let ?d = "[''id'' \<mapsto> JStr ''t3_abc'', ''dir'' \<mapsto> JNum ''1'']"
  let ?q = "[''limit'' \<mapsto> JNum ''5'']"
  let ?call = "post_call (Inr (Some (BearerAuth ''tok''))) (\<lambda>p. p)
          \<lparr>rateLimit = None, userAgent = ''ua'', endpoint = ''https://oauth.reddit.com''\<rparr>
          ''api/vote'' ?d ?q"
  note markers = request_markers [where a = "Inr (Some (BearerAuth ''tok''))" and mp = "\<lambda>p. p"
      and gw = "\<lparr>rateLimit = None, userAgent = ''ua'', endpoint = ''https://oauth.reddit.com''\<rparr>"
      and path = "''api/vote''" and d = ?d and q = ?q, THEN conjunct2, THEN conjunct1]
  show ?thesis
  proof (cases ?call)
    case (Inl e)
    with markers show ?thesis by simp
  next
    case (Inr r)
    with markers obtain sp b where
      sp: "searchParams (options r) = Some sp" "sp ''raw_json'' = Some (JNum ''1'')"
        "sp ''api_type'' = Some (JStr ''json'')"
        "\<forall>k. k \<noteq> ''raw_json'' \<and> k \<noteq> ''api_type'' \<longrightarrow> sp k = ?q k"
      and b: "form (options r) = Some b"
        "b ''api_type'' = Some (case ?d ''api_type'' of None \<Rightarrow> JStr ''json'' | Some v \<Rightarrow> v)"
        "\<forall>k. k \<noteq> ''api_type'' \<longrightarrow> b k = ?d k"
      by auto
    from sp(4) have "sp ''limit'' = ?q ''limit''" by simp
    then have limit: "sp ''limit'' = Some (JNum ''5'')" by simp
    from b(3) have "b ''id'' = ?d ''id''" by simp
    then have id: "b ''id'' = Some (JStr ''t3_abc'')" by simp
    from b(2) have marker: "b ''api_type'' = Some (JStr ''json'')" by simp
    from Inr sp(1,2,3) limit b(1) marker id show ?thesis by simp
  qed
qed

text \<open>
  C6 as stated fails for a payload that has a key \<open>api_type\<close> of its own: the spread
  \<^verbatim>\<open>{ api_type: "json", ...form }\<close> lets the caller's value replace the marker.
\<close>

theorem post_payload_marker_counterexample:
  "(case post_call (Inr None) (\<lambda>p. p)
          \<lparr>rateLimit = None, userAgent = ''ua'', endpoint = ''https://www.reddit.com''\<rparr>
          ''api/vote'' [''api_type'' \<mapsto> JStr ''xml''] Map.empty of
      Inl e \<Rightarrow> False
    | Inr r \<Rightarrow>
        (case form (options r) of
           None \<Rightarrow> False
         | Some b \<Rightarrow> b ''api_type'' = Some (JStr ''xml'') \<and> b ''api_type'' \<noteq> Some (JStr ''json'')))"
  by (simp add: post_call_def doPost_call_def buildOptions_def spread_options_def override_def
      no_options_def)

section \<open>Properties of the rate-limit hook\<close>

lemma radix_digit_10_range:
  assumes "radix_digit 10 c \<noteq> None"
  shows "48 \<le> (of_char c :: nat) \<and> (of_char c :: nat) \<le> 57"
proof (rule ccontr)
  assume "\<not> ?thesis"
  then have "digit_value c = None \<or> (\<exists>d. digit_value c = Some d \<and> 10 \<le> d)"
    unfolding digit_value_def Let_def by auto
  with assms show False
    by (auto simp: radix_digit_def)
qed

lemma digit_not_special:
  assumes "radix_digit 10 c \<noteq> None"
  shows "\<not> js_whitespace c" "c \<noteq> CHR ''+''" "c \<noteq> CHR ''-''" "c \<noteq> CHR ''x''" "c \<noteq> CHR ''X''"
  using radix_digit_10_range [OF assms] by (auto simp: js_whitespace_def)

text \<open>A numeral with nothing but a tail after it does not begin with a hexadecimal prefix.\<close>

lemma no_hex_prefix:
  assumes "z \<noteq> []" and "\<forall>c \<in> set z. radix_digit 10 c \<noteq> None" and "ends_numeral tail"
  shows "(take 2 (z @ tail) = ''0x'' \<or> take 2 (z @ tail) = ''0X'') = False"
proof (cases z)
  case Nil
  with assms(1) show ?thesis by simp
next
  case z: (Cons c cs)
  show ?thesis
  proof (cases cs)
    case Nil
    show ?thesis
    proof (cases tail)
      case Nil
      with z \<open>cs = []\<close> show ?thesis by simp
    next
      case (Cons t ts)
      with assms(3) have "t \<noteq> CHR ''x''" "t \<noteq> CHR ''X''"
        by (simp_all add: ends_numeral_def)
      with z \<open>cs = []\<close> Cons show ?thesis by simp
    qed
  next
    case (Cons c' cs')
    with z assms(2) have "radix_digit 10 c' \<noteq> None" by simp
    from digit_not_special(4,5) [OF this] z Cons show ?thesis by simp
  qed
qed

lemma takeWhile_numeral:
  assumes "\<forall>c \<in> set z. radix_digit 10 c \<noteq> None" and "ends_numeral tail"
  shows "takeWhile (\<lambda>c. radix_digit 10 c \<noteq> None) (z @ tail) = z"
proof -
  have "takeWhile (\<lambda>c. radix_digit 10 c \<noteq> None) tail = []"
    using assms(2) by (cases tail) (simp_all add: ends_numeral_def is_digit_def)
  moreover have "takeWhile (\<lambda>c. radix_digit 10 c \<noteq> None) (z @ tail)
      = z @ takeWhile (\<lambda>c. radix_digit 10 c \<noteq> None) tail"
    using assms(1) by (intro takeWhile_append2) simp
  ultimately show ?thesis by simp
qed

text \<open>
  A string that begins with decimal digits, followed by nothing or by a tail that ends the
  numeral, is read by \<open>parseInt\<close> as the number the digits denote.
\<close>

lemma parseInt_digits:
  assumes "z \<noteq> []" and "\<forall>c \<in> set z. radix_digit 10 c \<noteq> None" and "ends_numeral tail"
  shows "parseInt (Some (z @ tail)) = number_of_int (int (radix_value 10 z))"
proof -
  from assms obtain c cs where z: "z = c # cs" by (cases z) auto
  with assms have c: "radix_digit 10 c \<noteq> None" by simp
  note special = digit_not_special [OF c]
  note hex = no_hex_prefix [OF assms]
  note tw = takeWhile_numeral [OF assms(2,3)]
  have dw: "dropWhile js_whitespace (z @ tail) = z @ tail"
    using special(1) z by simp
  have neg: "(z @ tail \<noteq> [] \<and> hd (z @ tail) = CHR ''-'') = False"
    using special(3) z by simp
  have sign: "(z @ tail \<noteq> [] \<and> (hd (z @ tail) = CHR ''+'' \<or> hd (z @ tail) = CHR ''-'')) = False"
    using special(2,3) z by simp
  have "parseInt (Some (z @ tail)) =
      (if z = [] then NaN else number_of_int (1 * int (radix_value 10 z)))"
    unfolding parseInt_def Let_def option.case dw neg sign hex if_False tw ..
  with assms(1) show ?thesis by simp
qed

lemma parseInt_dec: "ends_numeral tail \<Longrightarrow> parseInt (Some (dec n @ tail)) = number_of_int (int n)"
  using parseInt_digits [OF dec_nonempty dec_digits] by (simp add: dec_value)

lemma parseInt_missing: "parseInt None = NaN"
  by (simp add: parseInt_def Let_def js_whitespace_def radix_digit_def digit_value_def)

lemma dec_59: "dec 59 = ''59''"
  by (simp add: dec.simps [of 59] dec.simps [of 5] digit_char_def)

lemma dec_600: "dec 600 = ''600''"
  by (simp add: dec.simps [of 600] dec.simps [of 60] dec.simps [of 6] digit_char_def)

lemma dec_1: "dec (Suc 0) = ''1''"
  by (simp add: dec.simps [of "Suc 0"] digit_char_def)

text \<open>
  C8, as the code has it. The headers are read by \<open>parseInt\<close>, which takes the integer
  numeral at the head of the value and ignores what follows. After a response whose
  rate-limit headers begin with the decimal numerals of a remaining count \<open>n\<close> and of a reset
  delta of \<open>s\<close> seconds, each followed by nothing or by a tail that ends the numeral (as in
  \<open>599.0\<close>), the snapshot is exactly \<open>remaining = n\<close>, \<open>reset = now + s * 1000\<close>,
  where \<open>now\<close> is the clock when the hook runs, as long as \<open>n\<close>, \<open>s * 1000\<close>,
  \<open>now\<close> and the sum are safe integers; the rest of the gateway and the response are as
  before.
\<close>

theorem updateRatelimit_numeric:
  assumes "response_headers r ''x-ratelimit-remaining'' = Some (dec n @ tail)"
    and "response_headers r ''x-ratelimit-reset'' = Some (dec s @ tail')"
    and "ends_numeral tail" and "ends_numeral tail'"
    and "int n \<le> 2 ^ 53" and "int s * 1000 \<le> 2 ^ 53"
    and "\<bar>now\<bar> \<le> 2 ^ 53" and "\<bar>now + int s * 1000\<bar> \<le> 2 ^ 53"
  shows "updateRatelimit now r gw =
     (r, gw\<lparr>rateLimit := Some \<lparr>remaining = Finite (int n), reset = Finite (now + int s * 1000)\<rparr>\<rparr>)"
proof -
  from assms(6) have "int s \<le> 2 ^ 53" by simp
  with assms show ?thesis
    by (simp add: updateRatelimit_def Let_def parseInt_dec number_of_int_def)
qed

theorem updateRatelimit_numeric_witness:
  "updateRatelimit 1700000000000
     \<lparr>response_headers = [''x-ratelimit-remaining'' \<mapsto> ''59.0'', ''x-ratelimit-reset'' \<mapsto> ''600''],
      body = JObj []\<rparr>
     \<lparr>rateLimit = None, userAgent = ''ua'', endpoint = ''https://oauth.reddit.com''\<rparr>
   = (\<lparr>response_headers = [''x-ratelimit-remaining'' \<mapsto> ''59.0'', ''x-ratelimit-reset'' \<mapsto> ''600''],
       body = JObj []\<rparr>,
      \<lparr>rateLimit = Some \<lparr>remaining = Finite 59, reset = Finite 1700000600000\<rparr>,
       userAgent = ''ua'', endpoint = ''https://oauth.reddit.com''\<rparr>)"
  using updateRatelimit_numeric [where n = 59 and s = 600 and now = 1700000000000
      and tail = "''.0''" and tail' = "[]"
      and r = "\<lparr>response_headers = [''x-ratelimit-remaining'' \<mapsto> ''59.0'', ''x-ratelimit-reset'' \<mapsto> ''600''],
                body = JObj []\<rparr>"
      and gw = "\<lparr>rateLimit = None, userAgent = ''ua'', endpoint = ''https://oauth.reddit.com''\<rparr>"]
  by (simp add: dec_59 dec_600 ends_numeral_def is_digit_def radix_digit_def digit_value_def)

text \<open>
  C8 as stated fails for a numeric header that is not an integer numeral: the value
  \<open>1e3\<close> is the number 1000, and the count stored is 1.
\<close>

theorem updateRatelimit_exponent_counterexample:
  "rateLimit (snd (updateRatelimit 0
        \<lparr>response_headers = [''x-ratelimit-remaining'' \<mapsto> ''1e3'', ''x-ratelimit-reset'' \<mapsto> ''600''],
         body = JObj []\<rparr>
        \<lparr>rateLimit = None, userAgent = ''ua'', endpoint = ''e''\<rparr>))
     = Some \<lparr>remaining = Finite 1, reset = Finite 600000\<rparr>
   \<and> rateLimit (snd (updateRatelimit 0
        \<lparr>response_headers = [''x-ratelimit-remaining'' \<mapsto> ''1e3'', ''x-ratelimit-reset'' \<mapsto> ''600''],
         body = JObj []\<rparr>
        \<lparr>rateLimit = None, userAgent = ''ua'', endpoint = ''e''\<rparr>))
     \<noteq> Some \<lparr>remaining = Finite 1000, reset = Finite (0 + 600 * 1000)\<rparr>"
proof -
  have e: "ends_numeral ''e3''" "ends_numeral []"
    by (simp_all add: ends_numeral_def is_digit_def radix_digit_def digit_value_def)
  have "parseInt (Some ''1e3'') = Finite 1"
    using parseInt_dec [OF e(1), of "Suc 0"] by (simp add: dec_1 number_of_int_def)
  moreover have "parseInt (Some ''600'') = Finite 600"
    using parseInt_dec [OF e(2), of 600] by (simp add: dec_600 number_of_int_def)
  ultimately show ?thesis
    by (simp add: updateRatelimit_def Let_def number_of_int_def)
qed

lemma radix_digit_0: "radix_digit 10 (CHR ''0'') \<noteq> None"
  by (simp add: radix_digit_def digit_value_def)

lemma parseInt_empty: "parseInt (Some []) = NaN"
  by (simp add: parseInt_def Let_def)

lemma parseInt_no_leading_digit:
  assumes "\<not> js_whitespace c" and "c \<noteq> CHR ''+''" and "c \<noteq> CHR ''-''" and "radix_digit 10 c = None"
  shows "parseInt (Some (c # cs)) = NaN"
proof -
  from assms(4) radix_digit_0 have "c \<noteq> CHR ''0''" by auto
  with assms show ?thesis
    by (simp add: parseInt_def Let_def)
qed

lemma non_numeric_NaN: "non_numeric h \<Longrightarrow> parseInt h = NaN"
proof (cases h)
  case None
  then show ?thesis by (simp add: parseInt_missing)
next
  case (Some s)
  assume "non_numeric h"
  with Some show ?thesis
    by (cases s) (auto simp: non_numeric_def is_digit_def parseInt_empty parseInt_no_leading_digit)
qed

lemma num_plus_NaN [simp]: "num_plus a NaN = NaN"
  by (cases a) simp_all

text \<open>
  C3, as the code has it. The hook returns the response it was given and raises nothing, and
  it always overwrites the snapshot: a header that is missing, empty or not begun by white
  space, a sign or a digit is recorded as \<open>NaN\<close>, the remaining count and the reset
  instant each on its own. The other fields of the gateway stay as they are.
\<close>

theorem updateRatelimit_unparsed:
  "fst (updateRatelimit now r gw) = r
   \<and> (\<exists>snapshot. rateLimit (snd (updateRatelimit now r gw)) = Some snapshot
        \<and> (non_numeric (response_headers r ''x-ratelimit-remaining'') \<longrightarrow> remaining snapshot = NaN)
        \<and> (non_numeric (response_headers r ''x-ratelimit-reset'') \<longrightarrow> reset snapshot = NaN))
   \<and> userAgent (snd (updateRatelimit now r gw)) = userAgent gw
   \<and> endpoint (snd (updateRatelimit now r gw)) = endpoint gw"
  by (simp add: updateRatelimit_def Let_def non_numeric_NaN)

theorem updateRatelimit_unparsed_witness:
  "non_numeric None \<and> non_numeric (Some ''soon'')
   \<and> rateLimit (snd (updateRatelimit 1000
        \<lparr>response_headers = [''x-ratelimit-reset'' \<mapsto> ''soon''], body = JNull\<rparr>
        \<lparr>rateLimit = Some \<lparr>remaining = Finite 59, reset = Finite 600000\<rparr>,
         userAgent = ''ua'', endpoint = ''e''\<rparr>))
     = Some \<lparr>remaining = NaN, reset = NaN\<rparr>"
  using updateRatelimit_unparsed [where now = 1000
      and r = "\<lparr>response_headers = [''x-ratelimit-reset'' \<mapsto> ''soon''], body = JNull\<rparr>"
      and gw = "\<lparr>rateLimit = Some \<lparr>remaining = Finite 59, reset = Finite 600000\<rparr>,
         userAgent = ''ua'', endpoint = ''e''\<rparr>"]
  by (auto simp: non_numeric_def is_digit_def js_whitespace_def radix_digit_def digit_value_def)

text \<open>
  C3 as stated fails: after a response with no rate-limit headers the stored snapshot is no
  longer the previous one.
\<close>

theorem updateRatelimit_missing_headers_counterexample:
  "rateLimit (snd (updateRatelimit 1000
        \<lparr>response_headers = Map.empty, body = JNull\<rparr>
        \<lparr>rateLimit = Some \<lparr>remaining = Finite 59, reset = Finite 600000\<rparr>,
         userAgent = ''ua'', endpoint = ''e''\<rparr>))
     = Some \<lparr>remaining = NaN, reset = NaN\<rparr>
   \<and> rateLimit (snd (updateRatelimit 1000
        \<lparr>response_headers = Map.empty, body = JNull\<rparr>
        \<lparr>rateLimit = Some \<lparr>remaining = Finite 59, reset = Finite 600000\<rparr>,
         userAgent = ''ua'', endpoint = ''e''\<rparr>))
     \<noteq> rateLimit \<lparr>rateLimit = Some \<lparr>remaining = Finite 59, reset = Finite 600000\<rparr>,
         userAgent = ''ua'', endpoint = ''e''\<rparr>"
  by (simp add: updateRatelimit_def Let_def parseInt_missing)

section \<open>Properties of the client\<close>

text \<open>
  C4. For \<open>get\<close>, \<open>post\<close> and \<open>postJson\<close> alike, the variant chosen is decided by
  the credentials of the client: the anonymous one when there are none, the authenticated one
  when there are (unless fetching the token fails, and then no call is made). The path, the
  payload and the query have no part in it: two calls on the same client in the same world
  choose alike.
\<close>

theorem client_dispatch:
  "chosen (fst (get helper c path q w)) =
     (case creds c of
        None \<Rightarrow> Inr Anonymous
      | Some cr \<Rightarrow> (case fst (oAuth helper c w) of Inl e \<Rightarrow> Inl e | Inr opts \<Rightarrow> Inr Authenticated))
   \<and> chosen (fst (post helper c path d q w)) = chosen (fst (get helper c path' q' w))
   \<and> chosen (fst (postJson helper c path d q w)) = chosen (fst (get helper c path' q' w))
   \<and> chosen (fst (get helper c path q w)) = chosen (fst (get helper c path' q' w))
   \<and> chosen (fst (post helper c path d q w)) = chosen (fst (post helper c path' d' q' w))
   \<and> chosen (fst (postJson helper c path d q w)) = chosen (fst (postJson helper c path' d' q' w))"
  by (simp add: chosen_def get_def post_def postJson_def split: option.split prod.split sum.split)

lemma client_dispatch_examples:
  "chosen (fst (get (\<lambda>ua t cr a w. (Inr \<lparr>access = ''tok'', refresh = None, expiration = 10\<rparr>, w))
      \<lparr>auth = None, creds = Some \<lparr>clientId = ''id'', clientSecret = ''secret''\<rparr>, token = None,
       client_userAgent = ''ua''\<rparr> ''r/all'' Map.empty ())) = Inr Authenticated
   \<and> chosen (fst (post (\<lambda>ua t cr a w. (Inr \<lparr>access = ''tok'', refresh = None, expiration = 10\<rparr>, w))
      \<lparr>auth = None, creds = None, token = None, client_userAgent = ''ua''\<rparr>
      ''api/vote'' [''dir'' \<mapsto> JNum ''1''] Map.empty ())) = Inr Anonymous"
  by (simp add: chosen_def get_def post_def oAuth_def updateAccessToken_def)

text \<open>
  C9. \<open>fromAuthCode\<close> fails with \<open>No creds\<close> when the options hold no credentials.
  Otherwise the code is exchanged: a rejected exchange is passed on, and a token \<open>t\<close> gives a
  client whose token is \<open>t\<close> and whose authorisation is the refresh-token descriptor holding
  the refresh value of \<open>t\<close> (\<open>undefined\<close> when \<open>t\<close> has none). From then on every token
  update of that client hands this descriptor to the token helper.
\<close>

theorem fromAuthCode_result:
  "(opt_creds opts = None \<longrightarrow>
      fromAuthCode tokenFromCode opts code redirectUri w = (Inl (ThrownString ''No creds''), w))
   \<and> (opt_creds opts = Some cr \<and> tokenFromCode code cr (opt_userAgent opts) redirectUri w = (Inr t, w') \<longrightarrow>
      fromAuthCode tokenFromCode opts code redirectUri w =
        (Inr \<lparr>auth = Some (TokenAuth (refresh t)), creds = Some cr, token = Some t,
              client_userAgent = opt_userAgent opts\<rparr>, w')
      \<and> (\<forall>helper w''.
            updateAccessToken helper
              \<lparr>auth = Some (TokenAuth (refresh t)), creds = Some cr, token = Some t,
               client_userAgent = opt_userAgent opts\<rparr> w''
            = (case helper (opt_userAgent opts) (Some t) cr (Some (TokenAuth (refresh t))) w'' of
                 (Inl e, w3) \<Rightarrow>
                   (Inl e, \<lparr>auth = Some (TokenAuth (refresh t)), creds = Some cr, token = Some t,
                            client_userAgent = opt_userAgent opts\<rparr>, w3)
               | (Inr t', w3) \<Rightarrow>
                   (Inr (), \<lparr>auth = Some (TokenAuth (refresh t)), creds = Some cr, token = Some t',
                             client_userAgent = opt_userAgent opts\<rparr>, w3))))
   \<and> (opt_creds opts = Some cr \<and> tokenFromCode code cr (opt_userAgent opts) redirectUri w = (Inl e, w') \<longrightarrow>
      fromAuthCode tokenFromCode opts code redirectUri w = (Inl e, w'))"
  by (auto simp: fromAuthCode_def new_client_def updateAccessToken_def Let_def split: prod.splits sum.splits)

theorem fromAuthCode_result_witness:
  "fromAuthCode (\<lambda>code cr ua uri w. (Inr \<lparr>access = ''a1'', refresh = Some ''r1'', expiration = 3600000\<rparr>, w))
      \<lparr>opt_auth = None, opt_creds = Some \<lparr>clientId = ''id'', clientSecret = ''secret''\<rparr>,
       opt_userAgent = ''ua''\<rparr> ''code'' ''https://cb'' (0::nat)
     = (Inr \<lparr>auth = Some (TokenAuth (Some ''r1'')),
             creds = Some \<lparr>clientId = ''id'', clientSecret = ''secret''\<rparr>,
             token = Some \<lparr>access = ''a1'', refresh = Some ''r1'', expiration = 3600000\<rparr>,
             client_userAgent = ''ua''\<rparr>, 0)
   \<and> fromAuthCode (\<lambda>code cr ua uri w. (Inr \<lparr>access = ''a1'', refresh = Some ''r1'', expiration = 3600000\<rparr>, w))
      \<lparr>opt_auth = None, opt_creds = None, opt_userAgent = ''ua''\<rparr> ''code'' ''https://cb'' (0::nat)
     = (Inl (ThrownString ''No creds''), 0)"
proof -
  let ?t = "\<lparr>access = ''a1'', refresh = Some ''r1'', expiration = 3600000\<rparr>"
  let ?cr = "\<lparr>clientId = ''id'', clientSecret = ''secret''\<rparr>"
  let ?tfc = "\<lambda>(code :: string) (cr :: credentials) (ua :: string) (uri :: string) (w :: nat).
                (Inr ?t :: js_error + token, w)"
  let ?opts = "\<lparr>opt_auth = None, opt_creds = Some ?cr, opt_userAgent = ''ua''\<rparr>"
  let ?none = "\<lparr>opt_auth = None, opt_creds = None, opt_userAgent = ''ua''\<rparr>"
  have exchanged: "opt_creds ?opts = Some ?cr
      \<and> ?tfc ''code'' ?cr (opt_userAgent ?opts) ''https://cb'' 0 = (Inr ?t, 0)"
    by simp
  have no_creds: "opt_creds ?none = None"
    by simp
  from fromAuthCode_result [where opts = ?opts and tokenFromCode = ?tfc and cr = ?cr
      and code = "''code''" and redirectUri = "''https://cb''" and w = 0 and w' = 0 and t = ?t]
  have "fromAuthCode ?tfc ?opts ''code'' ''https://cb'' 0 =
      (Inr \<lparr>auth = Some (TokenAuth (refresh ?t)), creds = Some ?cr, token = Some ?t,
            client_userAgent = opt_userAgent ?opts\<rparr>, 0)"
    using exchanged by blast
  moreover
  from fromAuthCode_result [where opts = ?none and tokenFromCode = ?tfc
      and code = "''code''" and redirectUri = "''https://cb''" and w = 0]
  have "fromAuthCode ?tfc ?none ''code'' ''https://cb'' 0 = (Inl (ThrownString ''No creds''), 0)"
    using no_creds by blast
  ultimately show ?thesis by simp
qed

section \<open>Properties of re-authorisation\<close>

lemma updateAccessToken_creds:
  "creds c = Some cr \<Longrightarrow>
     updateAccessToken helper c w =
       (case helper (client_userAgent c) (token c) cr (auth c) w of
          (Inl e, w') \<Rightarrow> (Inl e, c, w')
        | (Inr t, w') \<Rightarrow> (Inr (), c\<lparr>token := Some t\<rparr>, w'))"
  by (simp add: updateAccessToken_def)

text \<open>
  C5, as the code has it, with the token manager of the specification as the helper.
  \<open>reAuth\<close> stores the new descriptor, drops the token and makes the exchange itself, at
  once: exactly one exchange, with the grant of the new descriptor whatever the old one was.
  With no credentials it fails with \<open>No creds\<close> before any exchange. When the provider
  rejects the grant, the client is left with the new descriptor and no token, and a protected
  call on it makes one exchange, again with the grant of the new descriptor. When the provider
  issues a token, the client holds that token, and a protected call made while the token is not
  past its expiry makes no exchange.
\<close>

theorem reAuth_exchanges_at_once:
  "(creds c = None \<longrightarrow>
      reAuth (token_manager provider) new c w
        = (Inl (ThrownString ''No creds''), c\<lparr>auth := Some new, token := None\<rparr>, w))
   \<and> (creds c = Some cr \<and> provider cr (client_userAgent c) (grant_for (Some new)) (clock w) = Inl m \<longrightarrow>
      reAuth (token_manager provider) new c w
        = (Inl (AuthError m), c\<lparr>auth := Some new, token := None\<rparr>,
           w\<lparr>exchanges := exchanges w @ [grant_for (Some new)]\<rparr>)
      \<and> (\<forall>path q w'.
            exchanges (snd (snd (get (token_manager provider) (c\<lparr>auth := Some new, token := None\<rparr>)
                                  path q w')))
            = exchanges w' @ [grant_for (Some new)]))
   \<and> (creds c = Some cr \<and> provider cr (client_userAgent c) (grant_for (Some new)) (clock w) = Inr t \<longrightarrow>
      reAuth (token_manager provider) new c w
        = (Inr (), c\<lparr>auth := Some new, token := Some t\<rparr>,
           w\<lparr>exchanges := exchanges w @ [grant_for (Some new)]\<rparr>)
      \<and> (\<forall>later path q. later \<le> expiration t \<longrightarrow>
            get (token_manager provider) (c\<lparr>auth := Some new, token := Some t\<rparr>) path q
              (w\<lparr>exchanges := exchanges w @ [grant_for (Some new)], clock := later\<rparr>)
            = (Inr (OauthGet \<lparr>oauth_token = access t, oauth_userAgent = client_userAgent c\<rparr> path q),
               c\<lparr>auth := Some new, token := Some t\<rparr>,
               w\<lparr>exchanges := exchanges w @ [grant_for (Some new)], clock := later\<rparr>)))"
  by (auto simp: reAuth_def updateAccessToken_def token_manager_def obtainOrRefresh_def
      exchange_grant_def get_def oAuth_def Let_def split: sum.splits)

theorem reAuth_exchanges_at_once_witness:
  "reAuth (token_manager (\<lambda>cr ua g n. Inr \<lparr>access = ''fresh'', refresh = None, expiration = n + 3600000\<rparr>))
      (UsernameAuth ''u'' ''p'')
      \<lparr>auth = Some (TokenAuth (Some ''old'')),
       creds = Some \<lparr>clientId = ''id'', clientSecret = ''secret''\<rparr>,
       token = None, client_userAgent = ''ua''\<rparr>
      \<lparr>clock = 0, exchanges = []\<rparr>
   = (Inr (),
      \<lparr>auth = Some (UsernameAuth ''u'' ''p''),
       creds = Some \<lparr>clientId = ''id'', clientSecret = ''secret''\<rparr>,
       token = Some \<lparr>access = ''fresh'', refresh = None, expiration = 3600000\<rparr>,
       client_userAgent = ''ua''\<rparr>,
      \<lparr>clock = 0, exchanges = [PasswordGrant ''u'' ''p'']\<rparr>)
   \<and> get (token_manager (\<lambda>cr ua g n. Inr \<lparr>access = ''fresh'', refresh = None, expiration = n + 3600000\<rparr>))
      \<lparr>auth = Some (UsernameAuth ''u'' ''p''),
       creds = Some \<lparr>clientId = ''id'', clientSecret = ''secret''\<rparr>,
       token = Some \<lparr>access = ''fresh'', refresh = None, expiration = 3600000\<rparr>,
       client_userAgent = ''ua''\<rparr>
      ''api/v1/me'' Map.empty \<lparr>clock = 1, exchanges = [PasswordGrant ''u'' ''p'']\<rparr>
   = (Inr (OauthGet \<lparr>oauth_token = ''fresh'', oauth_userAgent = ''ua''\<rparr> ''api/v1/me'' Map.empty),
      \<lparr>auth = Some (UsernameAuth ''u'' ''p''),
       creds = Some \<lparr>clientId = ''id'', clientSecret = ''secret''\<rparr>,
       token = Some \<lparr>access = ''fresh'', refresh = None, expiration = 3600000\<rparr>,
       client_userAgent = ''ua''\<rparr>,
      \<lparr>clock = 1, exchanges = [PasswordGrant ''u'' ''p'']\<rparr>)"
  using reAuth_exchanges_at_once [where new = "UsernameAuth ''u'' ''p''"
      and provider = "\<lambda>cr ua g n. Inr \<lparr>access = ''fresh'', refresh = None, expiration = n + 3600000\<rparr>"
      and c = "\<lparr>auth = Some (TokenAuth (Some ''old'')),
               creds = Some \<lparr>clientId = ''id'', clientSecret = ''secret''\<rparr>,
               token = None, client_userAgent = ''ua''\<rparr>"
      and cr = "\<lparr>clientId = ''id'', clientSecret = ''secret''\<rparr>"
      and w = "\<lparr>clock = 0, exchanges = []\<rparr>"
      and t = "\<lparr>access = ''fresh'', refresh = None, expiration = 3600000\<rparr>"]
  by simp

text \<open>
  C5 as stated fails: when \<open>reAuth\<close> has resolved, the client holds a token (it has not
  been discarded), the one exchange has been made already, and the protected call that follows
  makes none.
\<close>

theorem reAuth_counterexample:
  "(case reAuth
          (token_manager (\<lambda>cr ua g n. Inr \<lparr>access = ''fresh'', refresh = None, expiration = n + 3600000\<rparr>))
          (UsernameAuth ''u'' ''p'')
          \<lparr>auth = Some (TokenAuth (Some ''old'')),
           creds = Some \<lparr>clientId = ''id'', clientSecret = ''secret''\<rparr>,
           token = None, client_userAgent = ''ua''\<rparr>
          \<lparr>clock = 0, exchanges = []\<rparr> of
      (r1, c1, w1) \<Rightarrow>
        r1 = Inr ()
        \<and> auth c1 = Some (UsernameAuth ''u'' ''p'')
        \<and> token c1 \<noteq> None
        \<and> exchanges w1 = [PasswordGrant ''u'' ''p'']
        \<and> (case get
                  (token_manager (\<lambda>cr ua g n. Inr \<lparr>access = ''fresh'', refresh = None, expiration = n + 3600000\<rparr>))
                  c1 ''api/v1/me'' Map.empty (w1\<lparr>clock := 1\<rparr>) of
              (r2, c2, w2) \<Rightarrow>
                r2 = Inr (OauthGet \<lparr>oauth_token = ''fresh'', oauth_userAgent = ''ua''\<rparr> ''api/v1/me'' Map.empty)
                \<and> exchanges w2 = exchanges w1
                \<and> length (exchanges w2) \<noteq> length (exchanges w1) + 1))"
  by (simp add: reAuth_def updateAccessToken_def token_manager_def obtainOrRefresh_def exchange_grant_def get_def
      oAuth_def Let_def)

end
